theory Spec2Isabelle
  imports Main "HOL-Library.Word"
begin

section \<open>chanrpc: data model\<close>

text \<open>
  A shallow embedding of \<^verbatim>\<open>src/chanrpc/chanrpc.go\<close>. Go's \<^verbatim>\<open>interface{}\<close> values are
  split in two: data values (\<open>val\<close>), which also hold the callback closures as opaque
  names, and the values a registry slot or the \<^verbatim>\<open>f\<close> field can hold (\<open>iface\<close>), where a
  registered operation is a HOL function from its argument slice to either the value it
  panics with or its result. Operations are taken to be pure and to come back (returning
  or panicking); callbacks are taken to return normally, and their invocation is recorded
  in the world. Pointers (\<^verbatim>\<open>*Server\<close>, \<^verbatim>\<open>*Client\<close>, \<^verbatim>\<open>*CallInfo\<close>, \<^verbatim>\<open>*RetInfo\<close>) are taken
  to be non-nil, except where the code itself can read a nil one from a channel.
\<close>

text \<open>A registry key: any comparable value.\<close>

datatype ident = IdStr string | IdInt int

text \<open>
  A slice \<^verbatim>\<open>[]interface{}\<close> is \<open>None\<close> when nil and \<open>Some xs\<close> otherwise. The three
  \<open>VFunc\<close> constructors are closures of the callback types \<^verbatim>\<open>func(error)\<close>,
  \<^verbatim>\<open>func(interface{}, error)\<close> and \<^verbatim>\<open>func([]interface{}, error)\<close>, each known by a name.
\<close>

datatype val =
    VNil
  | VInt int
  | VStr string
  | VSlice "val list option"
  | VFuncErr nat
  | VFuncValErr nat
  | VFuncSliceErr nat

type_synonym slice = "val list option"

definition len :: "slice \<Rightarrow> nat" where
  "len s = (case s of None \<Rightarrow> 0 | Some xs \<Rightarrow> length xs)"

text \<open>The runtime errors (values of \<^verbatim>\<open>runtime.Error\<close>) this code can raise.\<close>

datatype rterr =
    SendOnClosedChannel
  | CloseOfClosedChannel
  | NilDereference
  | InterfaceConversion
  | MakechanSizeOutOfRange
  | MakesliceLenOutOfRange

text \<open>
  What a \<^verbatim>\<open>panic\<close> carries and \<^verbatim>\<open>recover()\<close> returns. The two \<open>Sprintf\<close> constructors are
  the messages of \<^verbatim>\<open>Register\<close>, which format the id with \<^verbatim>\<open>%v\<close>. \<open>PVal VNil\<close> is the
  value of \<^verbatim>\<open>panic(nil)\<close>: \<^verbatim>\<open>recover()\<close> stops that panic too and returns nil (the
  semantics of Go up to 1.20, for which this code was written).
\<close>

datatype pval =
    PStr string
  | PInvalidDefinition ident
  | PAlreadyRegistered ident
  | PRuntime rterr
  | PVal val

text \<open>
  The \<^verbatim>\<open>error\<close> values of the package, one constructor per construction site.
  \<open>EFault r None\<close> is \<^verbatim>\<open>fmt.Errorf("%v", r)\<close> and \<open>EFault r (Some t)\<close> is
  \<^verbatim>\<open>fmt.Errorf("%v: %s", r, t)\<close>.
\<close>

datatype err =
    ENotRegistered ident
  | EReturnTypeMismatch ident
  | EChannelFull
  | EServerClosed
  | ERuntime rterr
  | EFault pval "string option"

text \<open>
  What \<^verbatim>\<open>Register\<close> can be given and the \<^verbatim>\<open>f\<close> field can hold: nil, a function of one of
  the three shapes, or any other value.
\<close>

datatype iface =
    INil
  | IFunc0 "slice \<Rightarrow> pval + unit"
  | IFunc1 "slice \<Rightarrow> pval + val"
  | IFuncN "slice \<Rightarrow> pval + slice"
  | IOther val

text \<open>
  A channel with its buffer (oldest first), its capacity and whether it has been closed.
  A send completes only when the buffer has room: the hand-off of an unbuffered channel
  to a receiver that is already waiting is not modelled.
\<close>

record 'a chan =
  ch_buf :: "'a list"
  ch_cap :: nat
  ch_closed :: bool

record callinfo =
  ci_f :: iface
  ci_args :: slice
  ci_chanRet :: "nat option"
  ci_cb :: val

record retinfo =
  ri_ret :: val
  ri_err :: "err option"
  ri_cb :: val

text \<open>One invocation of a callback closure, with the arguments it was given.\<close>

datatype cbcall =
    CalledErr nat "err option"
  | CalledValErr nat val "err option"
  | CalledSliceErr nat slice "err option"

text \<open>
  The world holds the one \<^verbatim>\<open>Server\<close> (\<open>functionsMap\<close> for \<^verbatim>\<open>functions\<close>, \<open>ChanCall\<close>), the store of return
  channels by address (a \<^verbatim>\<open>chanRet\<close> of \<open>None\<close> is the nil channel), the next free address,
  and the callbacks invoked so far, oldest first.
\<close>

record world =
  functionsMap :: "ident \<rightharpoonup> iface"
  ChanCall :: "callinfo chan"
  chans :: "nat \<Rightarrow> retinfo chan"
  nchans :: nat
  invoked :: "cbcall list"

record client =
  chanSyncRet :: nat
  ChanAsynRet :: nat
  pendingAsynCall :: "64 word"

text \<open>
  How a call ends: it returns, it panics, or it is suspended at a channel operation that
  cannot complete in this state. The world paired with the outcome is the state at that
  point.
\<close>

datatype wait = SendChanCall | SendChanRet | RecvSyncRet | RecvAsynRet | RecvChanCall

datatype 'a outcome = Returns 'a | Panics pval | Blocks wait

section \<open>Channel operations\<close>

datatype 'a sendres = Sent "'a chan" | SendClosed | SendFull

definition chan_send :: "'a chan \<Rightarrow> 'a \<Rightarrow> 'a sendres" where
  "chan_send ch x =
     (if ch_closed ch then SendClosed
      else if length (ch_buf ch) < ch_cap ch then Sent (ch\<lparr>ch_buf := ch_buf ch @ [x]\<rparr>)
      else SendFull)"

datatype 'a recvres = Recvd 'a "'a chan" | RecvClosed | RecvEmpty

definition chan_recv :: "'a chan \<Rightarrow> 'a recvres" where
  "chan_recv ch =
     (case ch_buf ch of
        x # xs \<Rightarrow> Recvd x (ch\<lparr>ch_buf := xs\<rparr>)
      | [] \<Rightarrow> if ch_closed ch then RecvClosed else RecvEmpty)"

definition make_chan :: "nat \<Rightarrow> 'a chan" where
  "make_chan l = \<lparr>ch_buf = [], ch_cap = l, ch_closed = False\<rparr>"

text \<open>
  The sizes the runtime accepts (64-bit Linux): \<^verbatim>\<open>make\<close> of a channel of pointers panics
  when the size is negative or its 8-byte slots do not fit in \<^verbatim>\<open>maxAlloc\<close> less the channel
  header; \<^verbatim>\<open>make\<close> of a byte slice panics when the length is negative or beyond
  \<^verbatim>\<open>maxAlloc\<close>. Running out of memory below these bounds is fatal to the process and not
  modelled.
\<close>

definition maxAlloc :: int where
  "maxAlloc = 2 ^ 48"

definition hchanSize :: int where
  "hchanSize = 96"

definition makechan_ok :: "int \<Rightarrow> bool" where
  "makechan_ok l \<longleftrightarrow> 0 \<le> l \<and> 8 * l \<le> maxAlloc - hchanSize"

definition makeslice_ok :: "int \<Rightarrow> bool" where
  "makeslice_ok l \<longleftrightarrow> 0 \<le> l \<and> l \<le> maxAlloc"

text \<open>The type assertion \<^verbatim>\<open>r.(error)\<close> on a recovered value.\<close>

definition as_error :: "pval \<Rightarrow> pval + err" where
  "as_error r = (case r of PRuntime e \<Rightarrow> Inr (ERuntime e) | _ \<Rightarrow> Inl (PRuntime InterfaceConversion))"

section \<open>Server\<close>

definition NewServer :: "int \<Rightarrow> world outcome" where
  "NewServer l =
     (if \<not> makechan_ok l then Panics (PRuntime MakechanSizeOutOfRange)
      else Returns \<lparr>functionsMap = Map.empty, ChanCall = make_chan (nat l),
                     chans = (\<lambda>_. make_chan 0), nchans = 0, invoked = []\<rparr>)"

definition Server_Register :: "ident \<Rightarrow> iface \<Rightarrow> world \<Rightarrow> unit outcome \<times> world" where
  "Server_Register ident g w =
     (case g of
        INil \<Rightarrow> (Panics (PInvalidDefinition ident), w)
      | IOther _ \<Rightarrow> (Panics (PInvalidDefinition ident), w)
      | _ \<Rightarrow>
          (case functionsMap w ident of
             Some _ \<Rightarrow> (Panics (PAlreadyRegistered ident), w)
           | None \<Rightarrow> (Returns (), w\<lparr>functionsMap := (functionsMap w)(ident \<mapsto> g)\<rparr>)))"

text \<open>
  \<^verbatim>\<open>ret\<close>: nothing is sent on a nil channel; a send on a closed channel panics and the
  deferred handler turns the panic into the returned error.
\<close>

definition Server_ret :: "callinfo \<Rightarrow> retinfo \<Rightarrow> world \<Rightarrow> err option outcome \<times> world" where
  "Server_ret ci ri w =
     (case ci_chanRet ci of
        None \<Rightarrow> (Returns None, w)
      | Some a \<Rightarrow>
          (case chan_send (chans w a) (ri\<lparr>ri_cb := ci_cb ci\<rparr>) of
             Sent ch' \<Rightarrow> (Returns None, w\<lparr>chans := (chans w)(a := ch')\<rparr>)
           | SendFull \<Rightarrow> (Blocks SendChanRet, w)
           | SendClosed \<Rightarrow>
               (case as_error (PRuntime SendOnClosedChannel) of
                  Inr e \<Rightarrow> (Returns (Some e), w)
                | Inl p \<Rightarrow> (Panics p, w))))"

text \<open>The body of \<^verbatim>\<open>Exec\<close> below its \<^verbatim>\<open>defer\<close>: the type switch, the call and the return.\<close>

definition Exec_body :: "callinfo \<Rightarrow> world \<Rightarrow> err option outcome \<times> world" where
  "Exec_body ci w =
     (case ci_f ci of
        IFunc0 g \<Rightarrow>
          (case g (ci_args ci) of
             Inl r \<Rightarrow> (Panics r, w)
           | Inr _ \<Rightarrow> Server_ret ci \<lparr>ri_ret = VNil, ri_err = None, ri_cb = VNil\<rparr> w)
      | IFunc1 g \<Rightarrow>
          (case g (ci_args ci) of
             Inl r \<Rightarrow> (Panics r, w)
           | Inr v \<Rightarrow> Server_ret ci \<lparr>ri_ret = v, ri_err = None, ri_cb = VNil\<rparr> w)
      | IFuncN g \<Rightarrow>
          (case g (ci_args ci) of
             Inl r \<Rightarrow> (Panics r, w)
           | Inr vs \<Rightarrow> Server_ret ci \<lparr>ri_ret = VSlice vs, ri_err = None, ri_cb = VNil\<rparr> w)
      | _ \<Rightarrow> (Panics (PStr ''bug''), w))"

text \<open>\<^verbatim>\<open>recover()\<close> returns nil: the guard \<^verbatim>\<open>r != nil\<close> of the deferred handlers fails.\<close>

definition recovers_nil :: "pval \<Rightarrow> bool" where
  "recovers_nil r = (case r of PVal VNil \<Rightarrow> True | _ \<Rightarrow> False)"

text \<open>
  The error the deferred handler of \<^verbatim>\<open>Exec\<close> builds from the recovered value.
  \<open>lenStackBuf\<close> is \<^verbatim>\<open>conf.LenStackBuf\<close> and \<open>stack\<close> is the trace \<^verbatim>\<open>runtime.Stack\<close> would
  write into a buffer large enough; it writes at most as many bytes as the buffer has.
  When \<^verbatim>\<open>LenStackBuf\<close> is positive the handler first makes the buffer, which panics for a
  length the runtime rejects.
\<close>

definition recovered_error :: "int \<Rightarrow> string \<Rightarrow> pval \<Rightarrow> pval + err" where
  "recovered_error lenStackBuf stack r =
     (if lenStackBuf > 0 then
        if makeslice_ok lenStackBuf then Inr (EFault r (Some (take (nat lenStackBuf) stack)))
        else Inl (PRuntime MakesliceLenOutOfRange)
      else Inr (EFault r None))"

text \<open>
  \<^verbatim>\<open>Exec\<close>: the body under the deferred handler. The handler does nothing when
  \<^verbatim>\<open>recover()\<close> returns nil, which is so after \<^verbatim>\<open>panic(nil)\<close>: \<^verbatim>\<open>Exec\<close> then returns its
  result \<^verbatim>\<open>err\<close> as it is, nil. Otherwise it builds the error, sends it through \<^verbatim>\<open>ret\<close>
  (dropping what \<^verbatim>\<open>ret\<close> returns) and returns it. A panic inside the handler leaves
  \<^verbatim>\<open>Exec\<close>.
\<close>

definition Server_Exec :: "int \<Rightarrow> string \<Rightarrow> callinfo \<Rightarrow> world \<Rightarrow> err option outcome \<times> world" where
  "Server_Exec lenStackBuf stack ci w =
     (case Exec_body ci w of
        (Panics r, w1) \<Rightarrow>
          if recovers_nil r then (Returns None, w1)
          else
            (case recovered_error lenStackBuf stack r of
               Inl p \<Rightarrow> (Panics p, w1)
             | Inr e \<Rightarrow>
                 (case Server_ret ci \<lparr>ri_ret = VNil, ri_err = Some e, ri_cb = VNil\<rparr> w1 of
                    (Returns _, w2) \<Rightarrow> (Returns (Some e), w2)
                  | (Panics p, w2) \<Rightarrow> (Panics p, w2)
                  | (Blocks b, w2) \<Rightarrow> (Blocks b, w2)))
      | res \<Rightarrow> res)"

definition lookup :: "world \<Rightarrow> ident \<Rightarrow> iface" where
  "lookup w ident = (case functionsMap w ident of None \<Rightarrow> INil | Some g \<Rightarrow> g)"

definition Server_Go :: "ident \<Rightarrow> slice \<Rightarrow> world \<Rightarrow> unit outcome \<times> world" where
  "Server_Go ident args w =
     (case lookup w ident of
        INil \<Rightarrow> (Returns (), w)
      | g \<Rightarrow>
          (case chan_send (ChanCall w)
                  \<lparr>ci_f = g, ci_args = args, ci_chanRet = None, ci_cb = VNil\<rparr> of
             Sent ch' \<Rightarrow> (Returns (), w\<lparr>ChanCall := ch'\<rparr>)
           | SendFull \<Rightarrow> (Blocks SendChanCall, w)
           | SendClosed \<Rightarrow> (Returns (), w)))"

text \<open>
  The loop of \<^verbatim>\<open>Close\<close> over the closed queue, given the envelopes still in it: each is
  taken out and answered through \<^verbatim>\<open>ret\<close>, whose returned error is dropped.
\<close>

fun Close_range :: "callinfo list \<Rightarrow> world \<Rightarrow> unit outcome \<times> world" where
  "Close_range [] w = (Returns (), w)"
| "Close_range (ci # cis) w =
     (case Server_ret ci \<lparr>ri_ret = VNil, ri_err = Some EServerClosed, ri_cb = VNil\<rparr>
             (w\<lparr>ChanCall := (ChanCall w)\<lparr>ch_buf := cis\<rparr>\<rparr>) of
        (Returns _, w') \<Rightarrow> Close_range cis w'
      | (Panics p, w') \<Rightarrow> (Panics p, w')
      | (Blocks b, w') \<Rightarrow> (Blocks b, w'))"

definition Server_Close :: "world \<Rightarrow> unit outcome \<times> world" where
  "Server_Close w =
     (if ch_closed (ChanCall w) then (Panics (PRuntime CloseOfClosedChannel), w)
      else Close_range (ch_buf (ChanCall w)) (w\<lparr>ChanCall := (ChanCall w)\<lparr>ch_closed := True\<rparr>\<rparr>))"

definition Server_Open :: "int \<Rightarrow> world \<Rightarrow> client outcome \<times> world" where
  "Server_Open l w =
     (if \<not> makechan_ok l then (Panics (PRuntime MakechanSizeOutOfRange), w)
      else (Returns \<lparr>chanSyncRet = nchans w, ChanAsynRet = nchans w + 1, pendingAsynCall = 0\<rparr>,
            w\<lparr>chans := (chans w)(nchans w := make_chan 1, nchans w + 1 := make_chan (nat l)),
              nchans := nchans w + 2\<rparr>))"

section \<open>Client\<close>

text \<open>
  \<^verbatim>\<open>f\<close>: the lookup and the check of the registered shape against the requested one. On a
  mismatch the function found is returned together with the error.
\<close>

definition Client_f :: "world \<Rightarrow> ident \<Rightarrow> int \<Rightarrow> (iface \<times> err option) outcome" where
  "Client_f w ident n =
     (let g = lookup w ident in
      case g of
        INil \<Rightarrow> Returns (g, Some (ENotRegistered ident))
      | _ \<Rightarrow>
          if n = 0 then
            Returns (g, case g of IFunc0 _ \<Rightarrow> None | _ \<Rightarrow> Some (EReturnTypeMismatch ident))
          else if n = 1 then
            Returns (g, case g of IFunc1 _ \<Rightarrow> None | _ \<Rightarrow> Some (EReturnTypeMismatch ident))
          else if n = 2 then
            Returns (g, case g of IFuncN _ \<Rightarrow> None | _ \<Rightarrow> Some (EReturnTypeMismatch ident))
          else Panics (PStr ''bug''))"

text \<open>
  \<^verbatim>\<open>call\<close>: a blocking send waits for room in the queue; a non-blocking one gives the
  queue-full error instead. A send on the closed queue panics either way, and the
  deferred handler returns the recovered runtime error.
\<close>

definition Client_call :: "callinfo \<Rightarrow> bool \<Rightarrow> world \<Rightarrow> err option outcome \<times> world" where
  "Client_call ci block w =
     (case chan_send (ChanCall w) ci of
        Sent ch' \<Rightarrow> (Returns None, w\<lparr>ChanCall := ch'\<rparr>)
      | SendFull \<Rightarrow> if block then (Blocks SendChanCall, w) else (Returns (Some EChannelFull), w)
      | SendClosed \<Rightarrow>
          (case as_error (PRuntime SendOnClosedChannel) of
             Inr e \<Rightarrow> (Returns (Some e), w)
           | Inl p \<Rightarrow> (Panics p, w)))"

text \<open>
  A synchronous call is suspended at \<^verbatim>\<open>ri := <-c.chanSyncRet\<close> until the dispatcher has
  answered. The three \<open>await\<close> functions are the code from that read on: they are where
  the call continues when it is woken, and the call itself runs into them after its send.
\<close>

definition Call0_await :: "client \<Rightarrow> world \<Rightarrow> err option outcome \<times> world" where
  "Call0_await c w =
     (case chan_recv (chans w (chanSyncRet c)) of
        Recvd ri ch' \<Rightarrow> (Returns (ri_err ri), w\<lparr>chans := (chans w)(chanSyncRet c := ch')\<rparr>)
      | RecvEmpty \<Rightarrow> (Blocks RecvSyncRet, w)
      | RecvClosed \<Rightarrow> (Panics (PRuntime NilDereference), w))"

definition Call1_await :: "client \<Rightarrow> world \<Rightarrow> (val \<times> err option) outcome \<times> world" where
  "Call1_await c w =
     (case chan_recv (chans w (chanSyncRet c)) of
        Recvd ri ch' \<Rightarrow>
          (Returns (ri_ret ri, ri_err ri), w\<lparr>chans := (chans w)(chanSyncRet c := ch')\<rparr>)
      | RecvEmpty \<Rightarrow> (Blocks RecvSyncRet, w)
      | RecvClosed \<Rightarrow> (Panics (PRuntime NilDereference), w))"

definition CallN_await :: "client \<Rightarrow> world \<Rightarrow> (slice \<times> err option) outcome \<times> world" where
  "CallN_await c w =
     (case chan_recv (chans w (chanSyncRet c)) of
        Recvd ri ch' \<Rightarrow>
          (case ri_ret ri of
             VSlice vs \<Rightarrow>
               (Returns (vs, ri_err ri), w\<lparr>chans := (chans w)(chanSyncRet c := ch')\<rparr>)
           | _ \<Rightarrow>
               (Panics (PRuntime InterfaceConversion),
                w\<lparr>chans := (chans w)(chanSyncRet c := ch')\<rparr>))
      | RecvEmpty \<Rightarrow> (Blocks RecvSyncRet, w)
      | RecvClosed \<Rightarrow> (Panics (PRuntime NilDereference), w))"

definition Client_Call0 :: "client \<Rightarrow> ident \<Rightarrow> slice \<Rightarrow> world \<Rightarrow> err option outcome \<times> world" where
  "Client_Call0 c ident args w =
     (case Client_f w ident 0 of
        Panics p \<Rightarrow> (Panics p, w)
      | Blocks b \<Rightarrow> (Blocks b, w)
      | Returns (g, Some e) \<Rightarrow> (Returns (Some e), w)
      | Returns (g, None) \<Rightarrow>
          (case Client_call \<lparr>ci_f = g, ci_args = args, ci_chanRet = Some (chanSyncRet c),
                              ci_cb = VNil\<rparr> True w of
             (Returns (Some e), w1) \<Rightarrow> (Returns (Some e), w1)
           | (Returns None, w1) \<Rightarrow> Call0_await c w1
           | (Panics p, w1) \<Rightarrow> (Panics p, w1)
           | (Blocks b, w1) \<Rightarrow> (Blocks b, w1)))"

definition Client_Call1 ::
  "client \<Rightarrow> ident \<Rightarrow> slice \<Rightarrow> world \<Rightarrow> (val \<times> err option) outcome \<times> world" where
  "Client_Call1 c ident args w =
     (case Client_f w ident 1 of
        Panics p \<Rightarrow> (Panics p, w)
      | Blocks b \<Rightarrow> (Blocks b, w)
      | Returns (g, Some e) \<Rightarrow> (Returns (VNil, Some e), w)
      | Returns (g, None) \<Rightarrow>
          (case Client_call \<lparr>ci_f = g, ci_args = args, ci_chanRet = Some (chanSyncRet c),
                              ci_cb = VNil\<rparr> True w of
             (Returns (Some e), w1) \<Rightarrow> (Returns (VNil, Some e), w1)
           | (Returns None, w1) \<Rightarrow> Call1_await c w1
           | (Panics p, w1) \<Rightarrow> (Panics p, w1)
           | (Blocks b, w1) \<Rightarrow> (Blocks b, w1)))"

definition Client_CallN ::
  "client \<Rightarrow> ident \<Rightarrow> slice \<Rightarrow> world \<Rightarrow> (slice \<times> err option) outcome \<times> world" where
  "Client_CallN c ident args w =
     (case Client_f w ident 2 of
        Panics p \<Rightarrow> (Panics p, w)
      | Blocks b \<Rightarrow> (Blocks b, w)
      | Returns (g, Some e) \<Rightarrow> (Returns (None, Some e), w)
      | Returns (g, None) \<Rightarrow>
          (case Client_call \<lparr>ci_f = g, ci_args = args, ci_chanRet = Some (chanSyncRet c),
                              ci_cb = VNil\<rparr> True w of
             (Returns (Some e), w1) \<Rightarrow> (Returns (None, Some e), w1)
           | (Returns None, w1) \<Rightarrow> CallN_await c w1
           | (Panics p, w1) \<Rightarrow> (Panics p, w1)
           | (Blocks b, w1) \<Rightarrow> (Blocks b, w1)))"

definition Client_asynCall ::
  "client \<Rightarrow> ident \<Rightarrow> slice \<Rightarrow> val \<Rightarrow> int \<Rightarrow> world \<Rightarrow> err option outcome \<times> client \<times> world" where
  "Client_asynCall c ident args cb n w =
     (case Client_f w ident n of
        Panics p \<Rightarrow> (Panics p, c, w)
      | Blocks b \<Rightarrow> (Blocks b, c, w)
      | Returns (g, Some e) \<Rightarrow> (Returns (Some e), c, w)
      | Returns (g, None) \<Rightarrow>
          (case Client_call \<lparr>ci_f = g, ci_args = args, ci_chanRet = Some (ChanAsynRet c),
                              ci_cb = cb\<rparr> False w of
             (Returns (Some e), w1) \<Rightarrow> (Returns (Some e), c, w1)
           | (Returns None, w1) \<Rightarrow>
               (Returns None, c\<lparr>pendingAsynCall := pendingAsynCall c + 1\<rparr>, w1)
           | (Panics p, w1) \<Rightarrow> (Panics p, c, w1)
           | (Blocks b, w1) \<Rightarrow> (Blocks b, c, w1)))"

text \<open>
  What \<^verbatim>\<open>AsynCall\<close> does with the result of \<^verbatim>\<open>asynCall\<close>: on an error the callback is
  invoked at once, with that error.
\<close>

definition on_asynCall ::
  "(err \<Rightarrow> cbcall) \<Rightarrow> err option outcome \<times> client \<times> world \<Rightarrow> unit outcome \<times> client \<times> world" where
  "on_asynCall invoke res =
     (case res of
        (Returns (Some e), c, w) \<Rightarrow> (Returns (), c, w\<lparr>invoked := invoked w @ [invoke e]\<rparr>)
      | (Returns None, c, w) \<Rightarrow> (Returns (), c, w)
      | (Panics p, c, w) \<Rightarrow> (Panics p, c, w)
      | (Blocks b, c, w) \<Rightarrow> (Blocks b, c, w))"

text \<open>
  \<^verbatim>\<open>AsynCall\<close>: the last of \<^verbatim>\<open>_args\<close> (\<open>args0\<close>) is the callback, the ones before it are the arguments
  of the call (a nil slice when there are none).
\<close>

definition Client_AsynCall ::
  "client \<Rightarrow> ident \<Rightarrow> slice \<Rightarrow> world \<Rightarrow> unit outcome \<times> client \<times> world" where
  "Client_AsynCall c ident args0 w =
     (if len args0 < 1 then (Panics (PStr ''callback function not found''), c, w)
      else
        let args = (if len args0 > 1 then Some (butlast (the args0)) else None);
            cb = last (the args0)
        in case cb of
             VFuncErr k \<Rightarrow>
               on_asynCall (\<lambda>e. CalledErr k (Some e)) (Client_asynCall c ident args cb 0 w)
           | VFuncValErr k \<Rightarrow>
               on_asynCall (\<lambda>e. CalledValErr k VNil (Some e)) (Client_asynCall c ident args cb 1 w)
           | VFuncSliceErr k \<Rightarrow>
               on_asynCall (\<lambda>e. CalledSliceErr k None (Some e)) (Client_asynCall c ident args cb 2 w)
           | _ \<Rightarrow> (Panics (PStr ''definition of callback function is invalid''), c, w))"

text \<open>
  \<^verbatim>\<open>Cb\<close>: the callback of the envelope is invoked with the envelope's fields; for a
  sequence callback the result is first asserted to be a slice. The counter is decremented
  after the callback has returned.
\<close>

definition Client_Cb :: "client \<Rightarrow> retinfo \<Rightarrow> world \<Rightarrow> unit outcome \<times> client \<times> world" where
  "Client_Cb c ri w =
     (let done = (\<lambda>ev. (Returns (), c\<lparr>pendingAsynCall := pendingAsynCall c - 1\<rparr>,
                         w\<lparr>invoked := invoked w @ [ev]\<rparr>))
      in case ri_cb ri of
           VFuncErr k \<Rightarrow> done (CalledErr k (ri_err ri))
         | VFuncValErr k \<Rightarrow> done (CalledValErr k (ri_ret ri) (ri_err ri))
         | VFuncSliceErr k \<Rightarrow>
             (case ri_ret ri of
                VSlice vs \<Rightarrow> done (CalledSliceErr k vs (ri_err ri))
              | _ \<Rightarrow> (Panics (PRuntime InterfaceConversion), c, w))
         | _ \<Rightarrow> (Panics (PStr ''bug''), c, w))"

text \<open>
  \<^verbatim>\<open>Close\<close>: while the counter is positive, read the asynchronous channel and run \<^verbatim>\<open>Cb\<close>.
  A read of the closed, empty channel gives a nil envelope, which \<^verbatim>\<open>Cb\<close> dereferences.
\<close>

function Client_Close :: "client \<Rightarrow> world \<Rightarrow> unit outcome \<times> client \<times> world" where
  "Client_Close c w =
     (if 0 <s pendingAsynCall c then
        (case chan_recv (chans w (ChanAsynRet c)) of
           Recvd ri ch' \<Rightarrow>
             (case Client_Cb c ri (w\<lparr>chans := (chans w)(ChanAsynRet c := ch')\<rparr>) of
                (Returns _, c', w') \<Rightarrow> Client_Close c' w'
              | (Panics p, c', w') \<Rightarrow> (Panics p, c', w')
              | (Blocks b, c', w') \<Rightarrow> (Blocks b, c', w'))
         | RecvEmpty \<Rightarrow> (Blocks RecvAsynRet, c, w)
         | RecvClosed \<Rightarrow> (Panics (PRuntime NilDereference), c, w))
      else (Returns (), c, w))"
  by pat_completeness auto
termination
proof (relation "measure (\<lambda>(c, w). length (ch_buf (chans w (ChanAsynRet c))))", goal_cases)
  case 1
  show ?case by simp
next
  case (2 c w ri ch' res out cw c' w')
  from 2(2) have "ch_buf (chans w (ChanAsynRet c)) = ri # ch_buf ch'"
    by (auto simp: chan_recv_def split: list.splits if_splits)
  moreover from 2(3,4,5)
  have "chans w' = (chans w)(ChanAsynRet c := ch') \<and> ChanAsynRet c' = ChanAsynRet c"
    by (auto simp: Client_Cb_def Let_def split: val.splits)
  ultimately show ?case by simp
qed

section \<open>Notions used in the statements\<close>

text \<open>The world with one more envelope at the end of the return channel at address \<open>a\<close>.\<close>

definition push_ret :: "nat \<Rightarrow> retinfo \<Rightarrow> world \<Rightarrow> world" where
  "push_ret a ri w =
     w\<lparr>chans := (chans w)(a := (chans w a)\<lparr>ch_buf := ch_buf (chans w a) @ [ri]\<rparr>)\<rparr>"

text \<open>The operation of the envelope raises a fault with the value \<open>r\<close>.\<close>

definition op_faults :: "callinfo \<Rightarrow> pval \<Rightarrow> bool" where
  "op_faults ci r =
     (case ci_f ci of
        IFunc0 g \<Rightarrow> g (ci_args ci) = Inl r
      | IFunc1 g \<Rightarrow> g (ci_args ci) = Inl r
      | IFuncN g \<Rightarrow> g (ci_args ci) = Inl r
      | _ \<Rightarrow> False)"

text \<open>The function field has none of the three registered shapes.\<close>

definition no_shape :: "iface \<Rightarrow> bool" where
  "no_shape g = (case g of IFunc0 _ \<Rightarrow> False | IFunc1 _ \<Rightarrow> False | IFuncN _ \<Rightarrow> False | _ \<Rightarrow> True)"

text \<open>The operation has the shape a call of arity class \<open>n\<close> (0, 1 or 2 for N) asks for.\<close>

definition has_shape :: "int \<Rightarrow> iface \<Rightarrow> bool" where
  "has_shape n g =
     (case g of IFunc0 _ \<Rightarrow> n = 0 | IFunc1 _ \<Rightarrow> n = 1 | IFuncN _ \<Rightarrow> n = 2 | _ \<Rightarrow> False)"

text \<open>
  The resolution error of a call of arity class \<open>n\<close> to \<open>ident\<close>, if there is one: the id is
  unknown, or the registered shape is not the requested one.
\<close>

definition resolution_error :: "world \<Rightarrow> ident \<Rightarrow> int \<Rightarrow> err option" where
  "resolution_error w ident n =
     (case functionsMap w ident of
        None \<Rightarrow> Some (ENotRegistered ident)
      | Some INil \<Rightarrow> Some (ENotRegistered ident)
      | Some g \<Rightarrow> if has_shape n g then None else Some (EReturnTypeMismatch ident))"

text \<open>
  Why an asynchronous call of arity class \<open>n\<close> fails before it is enqueued, if it does:
  a resolution error, the queue closed, or the queue full.
\<close>

definition asyn_failure :: "world \<Rightarrow> ident \<Rightarrow> int \<Rightarrow> err option" where
  "asyn_failure w ident n =
     (case resolution_error w ident n of
        Some e \<Rightarrow> Some e
      | None \<Rightarrow>
          if ch_closed (ChanCall w) then Some (ERuntime SendOnClosedChannel)
          else if ch_cap (ChanCall w) \<le> length (ch_buf (ChanCall w)) then Some EChannelFull
          else None)"

text \<open>The arity class a callback asks for.\<close>

definition cb_shape :: "val \<Rightarrow> int option" where
  "cb_shape cb =
     (case cb of VFuncErr _ \<Rightarrow> Some 0 | VFuncValErr _ \<Rightarrow> Some 1 | VFuncSliceErr _ \<Rightarrow> Some 2
      | _ \<Rightarrow> None)"

section \<open>Notions used in the statements about closing\<close>

text \<open>The answer \<^verbatim>\<open>Close\<close> gives to an envelope it finds in the queue.\<close>

definition closed_reply :: "callinfo \<Rightarrow> retinfo" where
  "closed_reply ci = \<lparr>ri_ret = VNil, ri_err = Some EServerClosed, ri_cb = ci_cb ci\<rparr>"

text \<open>The envelopes of a queue whose return channel is the one at address \<open>a\<close>.\<close>

definition queued_for :: "nat \<Rightarrow> callinfo list \<Rightarrow> callinfo list" where
  "queued_for a cis = filter (\<lambda>ci. ci_chanRet ci = Some a) cis"

text \<open>
  Every open return channel named in the queue has room for one envelope per queued call
  that names it.
\<close>

definition room_for :: "callinfo list \<Rightarrow> world \<Rightarrow> bool" where
  "room_for cis w =
     list_all (\<lambda>ci. case ci_chanRet ci of
                      None \<Rightarrow> True
                    | Some a \<Rightarrow>
                        ch_closed (chans w a) \<or>
                        length (ch_buf (chans w a)) + length (queued_for a cis)
                          \<le> ch_cap (chans w a)) cis"

text \<open>
  The world after the envelopes \<open>cis\<close> have been answered by \<^verbatim>\<open>Close\<close>: every open return
  channel holds what it held, followed by the answers to the envelopes of \<open>cis\<close> that name
  it, in their order; a closed return channel is as it was.
\<close>

definition after_answers :: "callinfo list \<Rightarrow> world \<Rightarrow> world" where
  "after_answers cis w =
     w\<lparr>chans := (\<lambda>a. if ch_closed (chans w a) then chans w a
                       else (chans w a)\<lparr>ch_buf := ch_buf (chans w a) @
                              map closed_reply (queued_for a cis)\<rparr>)\<rparr>"

text \<open>
  How \<^verbatim>\<open>Close\<close> ends on a closed queue of which the envelopes \<open>ans\<close> have been answered and
  \<open>rest\<close> have not: it returns when none is left, with the queue empty; otherwise it is
  suspended at the send of the answer to the first of \<open>rest\<close>, which it has taken from the
  queue.
\<close>

definition close_outcome :: "callinfo list \<Rightarrow> callinfo list \<Rightarrow> world \<Rightarrow> unit outcome \<times> world" where
  "close_outcome ans rest w =
     (case rest of
        [] \<Rightarrow> (Returns (), (after_answers ans w)\<lparr>ChanCall := (ChanCall w)\<lparr>ch_buf := []\<rparr>\<rparr>)
      | ci # rest' \<Rightarrow>
          (Blocks SendChanRet,
           (after_answers ans w)\<lparr>ChanCall := (ChanCall w)\<lparr>ch_buf := rest'\<rparr>\<rparr>))"

text \<open>
  The first of \<open>rest\<close>, if there is one, names an open return channel that is full once
  the envelopes \<open>ans\<close> have been answered.
\<close>

definition stuck_at :: "callinfo list \<Rightarrow> callinfo list \<Rightarrow> world \<Rightarrow> bool" where
  "stuck_at ans rest w =
     (case rest of
        [] \<Rightarrow> True
      | ci # _ \<Rightarrow>
          (case ci_chanRet ci of
             None \<Rightarrow> False
           | Some a \<Rightarrow>
               \<not> ch_closed (chans w a) \<and>
               ch_cap (chans w a) \<le>
                 length (ch_buf (chans w a)) + length (queued_for a ans)))"

section \<open>A server with three operations and one client\<close>

text \<open>
  The world after \<^verbatim>\<open>NewServer(1)\<close>, the registration of a shape-0 operation \<^verbatim>\<open>tick\<close>, a
  shape-1 operation \<^verbatim>\<open>one\<close> and a shape-N operation \<^verbatim>\<open>list\<close> whose body panics, and
  \<^verbatim>\<open>Open(1)\<close>; and the client that \<^verbatim>\<open>Open\<close> returned.
\<close>

definition tick_op :: iface where
  "tick_op = IFunc0 (\<lambda>_. Inr ())"

definition one_op :: iface where
  "one_op = IFunc1 (\<lambda>_. Inr (VInt 1))"

definition list_op :: iface where
  "list_op = IFuncN (\<lambda>_. Inl (PStr ''boom''))"

definition demo_world :: world where
  "demo_world =
     \<lparr>functionsMap = [IdStr ''tick'' \<mapsto> tick_op, IdStr ''one'' \<mapsto> one_op,
                       IdStr ''list'' \<mapsto> list_op],
      ChanCall = make_chan 1,
      chans = (\<lambda>_. make_chan 0)(0 := make_chan 1, 1 := make_chan 1),
      nchans = 2,
      invoked = []\<rparr>"

definition demo_client :: client where
  "demo_client = \<lparr>chanSyncRet = 0, ChanAsynRet = 1, pendingAsynCall = 0\<rparr>"

text \<open>The envelope \<^verbatim>\<open>Go("tick")\<close> puts on the queue: it has no return channel.\<close>

definition go_envelope :: callinfo where
  "go_envelope = \<lparr>ci_f = tick_op, ci_args = None, ci_chanRet = None, ci_cb = VNil\<rparr>"

text \<open>
  The world with two calls waiting in a queue of capacity 2: an asynchronous call of
  \<^verbatim>\<open>list\<close> by the client, and the envelope of \<^verbatim>\<open>Go("tick")\<close>.
\<close>

definition closing_world :: world where
  "closing_world =
     demo_world\<lparr>ChanCall := (make_chan 2)\<lparr>ch_buf :=
       [\<lparr>ci_f = list_op, ci_args = None, ci_chanRet = Some 1, ci_cb = VFuncSliceErr 7\<rparr>,
        go_envelope]\<rparr>\<rparr>"

text \<open>
  Modelled from the spec: the owner loop, an external collaborator that is not part of the
  package (\<^emph>\<open>a single loop, per Server, that repeatedly performs a blocking or multiplexed
  receive from the Call Queue and invokes Exec on each received envelope\<close>). One round of
  it: receive an envelope and run \<^verbatim>\<open>Exec\<close> on it. On the closed, empty queue there is no
  envelope to run.
\<close>

definition owner_round :: "int \<Rightarrow> string \<Rightarrow> world \<Rightarrow> err option outcome \<times> world" where
  "owner_round lenStackBuf stack w =
     (case chan_recv (ChanCall w) of
        Recvd ci ch' \<Rightarrow> Server_Exec lenStackBuf stack ci (w\<lparr>ChanCall := ch'\<rparr>)
      | RecvEmpty \<Rightarrow> (Blocks RecvChanCall, w)
      | RecvClosed \<Rightarrow> (Returns None, w))"

text \<open>
  The answers of the dispatcher to a call of \<^verbatim>\<open>list\<close>, whose body panics with
  \<^verbatim>\<open>"boom"\<close>: to the synchronous call of the client, and to its asynchronous call with a
  sequence callback.
\<close>

definition sync_fault_reply :: retinfo where
  "sync_fault_reply =
     \<lparr>ri_ret = VNil, ri_err = Some (EFault (PStr ''boom'') None), ri_cb = VNil\<rparr>"

definition asyn_fault_reply :: retinfo where
  "asyn_fault_reply =
     \<lparr>ri_ret = VNil, ri_err = Some (EFault (PStr ''boom'') None), ri_cb = VFuncSliceErr 7\<rparr>"

text \<open>The world with the client's call of \<^verbatim>\<open>list\<close> in the queue: synchronous, asynchronous.\<close>

definition sync_list_queued :: world where
  "sync_list_queued =
     demo_world\<lparr>ChanCall := (make_chan 1)\<lparr>ch_buf :=
       [\<lparr>ci_f = list_op, ci_args = None, ci_chanRet = Some 0, ci_cb = VNil\<rparr>]\<rparr>\<rparr>"

definition asyn_list_queued :: world where
  "asyn_list_queued =
     demo_world\<lparr>ChanCall := (make_chan 1)\<lparr>ch_buf :=
       [\<lparr>ci_f = list_op, ci_args = None, ci_chanRet = Some 1, ci_cb = VFuncSliceErr 7\<rparr>]\<rparr>\<rparr>"

text \<open>The client with one asynchronous call pending.\<close>

definition demo_client_pending :: client where
  "demo_client_pending = demo_client\<lparr>pendingAsynCall := 1\<rparr>"

text \<open>
  The world with the client's asynchronous channel closed, and the world with that channel
  full.
\<close>

definition closed_ret_world :: world where
  "closed_ret_world =
     demo_world\<lparr>chans := (chans demo_world)(1 := (make_chan 1)\<lparr>ch_closed := True\<rparr>)\<rparr>"

definition full_ret_world :: world where
  "full_ret_world =
     demo_world\<lparr>chans := (chans demo_world)(1 := (make_chan 1)\<lparr>ch_buf :=
       [\<lparr>ri_ret = VNil, ri_err = None, ri_cb = VFuncErr 5\<rparr>]\<rparr>)\<rparr>"

text \<open>
  Envelopes that name the client's asynchronous channel: one whose function field is not a
  function, one for \<^verbatim>\<open>list\<close> (whose body panics with \<^verbatim>\<open>"boom"\<close>), one for an operation whose
  body does \<^verbatim>\<open>panic(nil)\<close>, and one for \<^verbatim>\<open>tick\<close>. And the envelope \<^verbatim>\<open>Go("list")\<close> puts on the
  queue.
\<close>

definition shapeless_envelope :: callinfo where
  "shapeless_envelope =
     \<lparr>ci_f = IOther (VInt 7), ci_args = None, ci_chanRet = Some 1, ci_cb = VFuncErr 3\<rparr>"

definition list_envelope :: callinfo where
  "list_envelope =
     \<lparr>ci_f = list_op, ci_args = None, ci_chanRet = Some 1, ci_cb = VFuncSliceErr 7\<rparr>"


definition tick_envelope :: callinfo where
  "tick_envelope =
     \<lparr>ci_f = tick_op, ci_args = None, ci_chanRet = Some 1, ci_cb = VFuncErr 5\<rparr>"


text \<open>
  The world with two asynchronous calls of the client waiting in a queue of capacity 2,
  the client's asynchronous channel having capacity 1.
\<close>

definition crowded_world :: world where
  "crowded_world =
     demo_world\<lparr>ChanCall := (make_chan 2)\<lparr>ch_buf := [list_envelope, tick_envelope]\<rparr>\<rparr>"

section \<open>The server and its clients running together\<close>




text \<open>
  What is observed of a run: an envelope has entered the queue, or \<^verbatim>\<open>Exec\<close> has returned
  from an envelope.
\<close>

datatype event = Enqueued callinfo | Answered callinfo



text \<open>The envelopes at the end of the queue of \<open>w'\<close> that the queue of \<open>w\<close> did not have.\<close>

definition newly_queued :: "world \<Rightarrow> world \<Rightarrow> callinfo list" where
  "newly_queued w w' = drop (length (ch_buf (ChanCall w))) (ch_buf (ChanCall w'))"


text \<open>
  Modelled from the spec: the receive of the owner loop, which is not part of the package
  (\<^emph>\<open>a blocking or multiplexed receive from the Call Queue\<close>). It takes the oldest envelope
  of the queue, if there is one.
\<close>

definition owner_receive :: "world \<Rightarrow> (callinfo \<times> world) option" where
  "owner_receive w =
     (case chan_recv (ChanCall w) of
        Recvd ci ch' \<Rightarrow> Some (ci, w\<lparr>ChanCall := ch'\<rparr>)
      | _ \<Rightarrow> None)"

text \<open>
  Modelled from the spec: the threads of the system, which share nothing but the Call
  Queue and the return channels (\<^emph>\<open>multiple independent threads of control, all
  coordination via blocking/non-blocking queue operations\<close>), and of which exactly one, the
  dispatch thread, consumes the queue. One step is one call of the package by some thread,
  taken as far as it gets without waiting, or one half of a round of the owner loop; each
  holds at most one operation on a shared channel. From a world and the envelope the
  dispatch thread has in hand, any thread may push any envelope (\<open>call\<close>: the send of
  every synchronous and asynchronous call), make an asynchronous call, be woken at the
  read of a synchronous call, read an asynchronous channel and run \<^verbatim>\<open>Cb\<close> on what it read
  (\<^verbatim>\<open>Client.Close\<close> is a sequence of such steps), call \<^verbatim>\<open>Go\<close> or \<^verbatim>\<open>Open\<close>. The dispatch
  thread, with nothing in hand, receives the next envelope of the queue; with an envelope
  in hand it runs \<^verbatim>\<open>Exec\<close> on it, which completes when its send of the answer does.
  Registration and \<^verbatim>\<open>Server.Close\<close> are not steps: the one precedes the run and the other
  ends it.
\<close>

inductive step ::
  "int \<Rightarrow> string \<Rightarrow> world \<Rightarrow> callinfo option \<Rightarrow> event list \<Rightarrow> world \<Rightarrow> callinfo option \<Rightarrow> bool"
  for l :: int and st :: string where
  call: "Client_call ci block w = (out, w') \<Longrightarrow>
           step l st w cur (map Enqueued (newly_queued w w')) w' cur"
| asyn: "Client_AsynCall c ident args0 w = (outu, c', w') \<Longrightarrow>
           step l st w cur (map Enqueued (newly_queued w w')) w' cur"
| go: "Server_Go ident args w = (outg, w') \<Longrightarrow>
           step l st w cur (map Enqueued (newly_queued w w')) w' cur"
| await0: "Call0_await c w = (out0, w') \<Longrightarrow> step l st w cur [] w' cur"
| await1: "Call1_await c w = (out1, w') \<Longrightarrow> step l st w cur [] w' cur"
| awaitN: "CallN_await c w = (outN, w') \<Longrightarrow> step l st w cur [] w' cur"
| drain: "chan_recv (chans w (ChanAsynRet c)) = Recvd ri ch' \<Longrightarrow>
          Client_Cb c ri (w\<lparr>chans := (chans w)(ChanAsynRet c := ch')\<rparr>) = (outu, c', w') \<Longrightarrow>
           step l st w cur [] w' cur"
| opened: "Server_Open n w = (outc, w') \<Longrightarrow> step l st w cur [] w' cur"
| receive: "owner_receive w = Some (ci, w') \<Longrightarrow> step l st w None [] w' (Some ci)"
| exec: "Server_Exec l st ci w = (Returns e, w') \<Longrightarrow>
           step l st w (Some ci) [Answered ci] w' None"

text \<open>
  A run from the world \<open>w0\<close>, the dispatch thread with nothing in hand: the events so far,
  oldest first, the world reached and what the dispatch thread has in hand.
\<close>

inductive run ::
  "int \<Rightarrow> string \<Rightarrow> world \<Rightarrow> event list \<Rightarrow> world \<Rightarrow> callinfo option \<Rightarrow> bool"
  for l :: int and st :: string and w0 :: world where
  start: "run l st w0 [] w0 None"
| further: "run l st w0 tr w cur \<Longrightarrow> step l st w cur evs w' cur' \<Longrightarrow>
              run l st w0 (tr @ evs) w' cur'"





section \<open>The dispatcher\<close>

lemma Server_ret_cases:
  "Server_ret ci ri w =
     (case ci_chanRet ci of
        None \<Rightarrow> (Returns None, w)
      | Some a \<Rightarrow>
          if ch_closed (chans w a) then (Returns (Some (ERuntime SendOnClosedChannel)), w)
          else if length (ch_buf (chans w a)) < ch_cap (chans w a)
            then (Returns None, push_ret a (ri\<lparr>ri_cb := ci_cb ci\<rparr>) w)
          else (Blocks SendChanRet, w))"
  by (simp add: Server_ret_def chan_send_def as_error_def push_ret_def split: option.splits)

lemma Server_ret_not_Panics: "Server_ret ci ri w \<noteq> (Panics r, w')"
  by (simp add: Server_ret_cases split: option.splits)

lemma Exec_body_cases:
  "(\<exists>r. Exec_body ci w = (Panics r, w) \<and>
        (op_faults ci r \<or> no_shape (ci_f ci) \<and> r = PStr ''bug'')) \<or>
   (\<exists>ri. Exec_body ci w = Server_ret ci ri w \<and> (\<forall>r. \<not> op_faults ci r) \<and> \<not> no_shape (ci_f ci))"
proof (cases "ci_f ci")
  case (IFunc0 g)
  then show ?thesis
    by (cases "g (ci_args ci)") (auto simp: Exec_body_def op_faults_def no_shape_def)
next
  case (IFunc1 g)
  then show ?thesis
    by (cases "g (ci_args ci)") (auto simp: Exec_body_def op_faults_def no_shape_def)
next
  case (IFuncN g)
  then show ?thesis
    by (cases "g (ci_args ci)") (auto simp: Exec_body_def op_faults_def no_shape_def)
qed (simp_all add: Exec_body_def op_faults_def no_shape_def)


lemma Exec_body_no_shape: "no_shape (ci_f ci) \<Longrightarrow> Exec_body ci w = (Panics (PStr ''bug''), w)"
  by (auto simp: Exec_body_def no_shape_def split: iface.splits)

lemma recovered_error_ok:
  "l \<le> maxAlloc \<Longrightarrow>
   recovered_error l st r =
     Inr (if 0 < l then EFault r (Some (take (nat l) st)) else EFault r None)"
  by (simp add: recovered_error_def makeslice_ok_def)

lemma Exec_nil: "Exec_body ci w = (Panics r, w) \<Longrightarrow> recovers_nil r \<Longrightarrow>
   Server_Exec l st ci w = (Returns None, w)"
  by (simp add: Server_Exec_def)

lemma Exec_recovered:
  "Exec_body ci w = (Panics r, w) \<Longrightarrow> \<not> recovers_nil r \<Longrightarrow> recovered_error l st r = Inr e \<Longrightarrow>
   Server_Exec l st ci w =
     (case ci_chanRet ci of
        None \<Rightarrow> (Returns (Some e), w)
      | Some a \<Rightarrow>
          if ch_closed (chans w a) then (Returns (Some e), w)
          else if length (ch_buf (chans w a)) < ch_cap (chans w a)
            then (Returns (Some e),
                  push_ret a \<lparr>ri_ret = VNil, ri_err = Some e, ri_cb = ci_cb ci\<rparr> w)
          else (Blocks SendChanRet, w))"
  by (simp add: Server_Exec_def Server_ret_cases split: option.splits)

lemma Exec_returned:
  "Exec_body ci w = Server_ret ci ri w \<Longrightarrow> Server_Exec l st ci w = Server_ret ci ri w"
  by (cases "Server_ret ci ri w"; cases "fst (Server_ret ci ri w)")
     (auto simp: Server_Exec_def Server_ret_not_Panics)

lemma Exec_no_panic: "l \<le> maxAlloc \<Longrightarrow> fst (Server_Exec l st ci w) \<noteq> Panics p"
proof -
  assume l: "l \<le> maxAlloc"
  consider r where "Exec_body ci w = (Panics r, w)" | ri where "Exec_body ci w = Server_ret ci ri w"
    using Exec_body_cases [of ci w] by blast
  then show ?thesis
  proof cases
    case 1
    show ?thesis
    proof (cases "recovers_nil r")
      case True
      with 1 show ?thesis by (simp add: Exec_nil)
    next
      case False
      from Exec_recovered [OF 1 False recovered_error_ok [OF l]] show ?thesis
        by (simp split: option.splits)
    qed
  next
    case 2
    from Exec_returned [OF this] show ?thesis
      by (simp add: Server_ret_cases split: option.splits)
  qed
qed

text \<open>
  C10, as stated, fails in three ways. The envelope has a function field that is not a
  function and names the client's asynchronous channel. When that channel is closed,
  \<^verbatim>\<open>Exec\<close> returns the recovered error and delivers nothing; when it is full, \<^verbatim>\<open>Exec\<close>
  does not return but waits at the send; and when \<^verbatim>\<open>conf.LenStackBuf\<close> is beyond what the
  runtime allocates, the deferred handler panics in \<^verbatim>\<open>make\<close> and that panic leaves \<^verbatim>\<open>Exec\<close>.
\<close>

theorem Exec_bug_error_undelivered:
  "Server_Exec 0 [] shapeless_envelope closed_ret_world =
     (Returns (Some (EFault (PStr ''bug'') None)), closed_ret_world) \<and>
   Server_Exec 0 [] shapeless_envelope full_ret_world = (Blocks SendChanRet, full_ret_world) \<and>
   Server_Exec (maxAlloc + 1) [] shapeless_envelope demo_world =
     (Panics (PRuntime MakesliceLenOutOfRange), demo_world)"
  by (simp add: Server_Exec_def Exec_body_def shapeless_envelope_def recovers_nil_def
        recovered_error_def makeslice_ok_def maxAlloc_def Server_ret_cases closed_ret_world_def
        full_ret_world_def demo_world_def make_chan_def)

text \<open>
  C10, amended. With \<^verbatim>\<open>conf.LenStackBuf\<close> no larger than the runtime allocates, \<^verbatim>\<open>Exec\<close>
  never ends in a panic, whatever the envelope. When the function field has none of the
  three shapes, the panic \<^verbatim>\<open>"bug"\<close> is recovered and turned into an error: \<^verbatim>\<open>Exec\<close>
  returns it when the envelope has no return channel, when that channel is closed
  (nothing is delivered then), and when the channel is open with room, where a Return
  Envelope with the error, a nil result and the envelope's callback is put on it; on a
  full return channel \<^verbatim>\<open>Exec\<close> waits at the send.
\<close>

theorem Exec_never_panics:
  assumes "l \<le> maxAlloc"
  shows "(\<forall>p. fst (Server_Exec l st ci w) \<noteq> Panics p) \<and>
   (no_shape (ci_f ci) \<longrightarrow>
      Server_Exec l st ci w =
        (let e = (if 0 < l then EFault (PStr ''bug'') (Some (take (nat l) st))
                  else EFault (PStr ''bug'') None) in
         case ci_chanRet ci of
           None \<Rightarrow> (Returns (Some e), w)
         | Some a \<Rightarrow>
             if ch_closed (chans w a) then (Returns (Some e), w)
             else if length (ch_buf (chans w a)) < ch_cap (chans w a)
               then (Returns (Some e),
                     push_ret a \<lparr>ri_ret = VNil, ri_err = Some e, ri_cb = ci_cb ci\<rparr> w)
             else (Blocks SendChanRet, w)))"
proof (intro conjI allI impI)
  fix p show "fst (Server_Exec l st ci w) \<noteq> Panics p"
    using assms by (rule Exec_no_panic)
next
  assume "no_shape (ci_f ci)"
  then have "Exec_body ci w = (Panics (PStr ''bug''), w)"
    by (rule Exec_body_no_shape)
  from Exec_recovered [OF this _ recovered_error_ok [OF assms]]
  show "Server_Exec l st ci w =
        (let e = (if 0 < l then EFault (PStr ''bug'') (Some (take (nat l) st))
                  else EFault (PStr ''bug'') None) in
         case ci_chanRet ci of
           None \<Rightarrow> (Returns (Some e), w)
         | Some a \<Rightarrow>
             if ch_closed (chans w a) then (Returns (Some e), w)
             else if length (ch_buf (chans w a)) < ch_cap (chans w a)
               then (Returns (Some e),
                     push_ret a \<lparr>ri_ret = VNil, ri_err = Some e, ri_cb = ci_cb ci\<rparr> w)
             else (Blocks SendChanRet, w))"
    by (simp add: recovers_nil_def Let_def)
qed

theorem Exec_never_panics_witness:
  "(0::int) \<le> maxAlloc \<and>
   Server_Exec 0 [] shapeless_envelope demo_world =
     (Returns (Some (EFault (PStr ''bug'') None)),
      push_ret 1 \<lparr>ri_ret = VNil, ri_err = Some (EFault (PStr ''bug'') None),
                   ri_cb = VFuncErr 3\<rparr> demo_world)"
proof -
  have h: "(0::int) \<le> maxAlloc" by (simp add: maxAlloc_def)
  from Exec_never_panics [OF h, of "[]" shapeless_envelope demo_world] h show ?thesis
    by (simp add: no_shape_def shapeless_envelope_def demo_world_def make_chan_def Let_def)
qed







section \<open>Registration and resolution\<close>

lemma Client_f_resolution:
  "n \<in> {0, 1, 2} \<Longrightarrow> Client_f w ident n = Returns (lookup w ident, resolution_error w ident n)"
  by (auto simp: Client_f_def lookup_def resolution_error_def has_shape_def Let_def
           split: option.splits iface.splits)

text \<open>
  C7. \<^verbatim>\<open>Register\<close> panics when the id is already in the registry or when the operation
  is none of the three shapes, and the registry is then as it was; otherwise it returns
  and the registry maps the id to the operation.
\<close>

theorem Register_fatal_or_stored:
  "(no_shape g \<or> functionsMap w ident \<noteq> None \<longrightarrow>
      (\<exists>p. Server_Register ident g w = (Panics p, w))) \<and>
   (\<not> no_shape g \<and> functionsMap w ident = None \<longrightarrow>
      Server_Register ident g w =
        (Returns (), w\<lparr>functionsMap := (functionsMap w)(ident \<mapsto> g)\<rparr>))"
  by (auto simp: Server_Register_def no_shape_def split: iface.splits option.splits)

theorem Register_fatal_or_stored_witness:
  "(\<exists>p. Server_Register (IdStr ''tick'') one_op demo_world = (Panics p, demo_world)) \<and>
   (\<exists>p. Server_Register (IdStr ''new'') (IOther (VInt 1)) demo_world = (Panics p, demo_world)) \<and>
   Server_Register (IdStr ''new'') one_op demo_world =
     (Returns (),
      demo_world\<lparr>functionsMap := (functionsMap demo_world)(IdStr ''new'' \<mapsto> one_op)\<rparr>)"
  using Register_fatal_or_stored [of one_op demo_world "IdStr ''tick''"]
        Register_fatal_or_stored [of "IOther (VInt 1)" demo_world "IdStr ''new''"]
        Register_fatal_or_stored [of one_op demo_world "IdStr ''new''"]
  by (simp add: no_shape_def one_op_def demo_world_def)

text \<open>
  C8. When the id is not registered, or the registered operation has not the shape the
  call asks for, \<^verbatim>\<open>Call0\<close>, \<^verbatim>\<open>Call1\<close> and \<^verbatim>\<open>CallN\<close> return the resolution error at once and
  the world (the queue with it) is as it was.
\<close>

theorem sync_call_resolution_error:
  "(resolution_error w ident 0 = Some e \<longrightarrow>
      Client_Call0 c ident args w = (Returns (Some e), w)) \<and>
   (resolution_error w ident 1 = Some e \<longrightarrow>
      Client_Call1 c ident args w = (Returns (VNil, Some e), w)) \<and>
   (resolution_error w ident 2 = Some e \<longrightarrow>
      Client_CallN c ident args w = (Returns (None, Some e), w))"
  by (simp add: Client_Call0_def Client_Call1_def Client_CallN_def Client_f_resolution)

theorem sync_call_resolution_error_witness:
  "Client_Call0 demo_client (IdStr ''nope'') None demo_world =
     (Returns (Some (ENotRegistered (IdStr ''nope''))), demo_world) \<and>
   Client_Call1 demo_client (IdStr ''tick'') (Some [VInt 2]) demo_world =
     (Returns (VNil, Some (EReturnTypeMismatch (IdStr ''tick''))), demo_world) \<and>
   Client_CallN demo_client (IdStr ''one'') None demo_world =
     (Returns (None, Some (EReturnTypeMismatch (IdStr ''one''))), demo_world)"
  using sync_call_resolution_error [of demo_world "IdStr ''nope''"
          "ENotRegistered (IdStr ''nope'')" demo_client None]
        sync_call_resolution_error [of demo_world "IdStr ''tick''"
          "EReturnTypeMismatch (IdStr ''tick'')" demo_client "Some [VInt 2]"]
        sync_call_resolution_error [of demo_world "IdStr ''one''"
          "EReturnTypeMismatch (IdStr ''one'')" demo_client None]
  by (simp add: resolution_error_def has_shape_def demo_world_def tick_op_def one_op_def
        list_op_def)

section \<open>Asynchronous calls\<close>

text \<open>
  C4. When an asynchronous call fails before it is enqueued (unknown id, shape mismatch,
  queue full or queue closed), \<^verbatim>\<open>AsynCall\<close> returns after invoking the callback with the
  error and a nil result; the queue, the return channels and the client's counter are as
  they were. Otherwise the envelope is appended to the queue and the counter is
  incremented, and no callback is invoked.
\<close>

theorem AsynCall_failure_inline:
  "(asyn_failure w ident 0 = Some e \<longrightarrow>
      Client_AsynCall c ident (Some (xs @ [VFuncErr k])) w =
        (Returns (), c, w\<lparr>invoked := invoked w @ [CalledErr k (Some e)]\<rparr>)) \<and>
   (asyn_failure w ident 1 = Some e \<longrightarrow>
      Client_AsynCall c ident (Some (xs @ [VFuncValErr k])) w =
        (Returns (), c, w\<lparr>invoked := invoked w @ [CalledValErr k VNil (Some e)]\<rparr>)) \<and>
   (asyn_failure w ident 2 = Some e \<longrightarrow>
      Client_AsynCall c ident (Some (xs @ [VFuncSliceErr k])) w =
        (Returns (), c, w\<lparr>invoked := invoked w @ [CalledSliceErr k None (Some e)]\<rparr>)) \<and>
   (cb_shape cb = Some n \<and> asyn_failure w ident n = None \<longrightarrow>
      Client_AsynCall c ident (Some (xs @ [cb])) w =
        (Returns (), c\<lparr>pendingAsynCall := pendingAsynCall c + 1\<rparr>,
         w\<lparr>ChanCall := (ChanCall w)\<lparr>ch_buf := ch_buf (ChanCall w) @
              [\<lparr>ci_f = lookup w ident, ci_args = (if xs = [] then None else Some xs),
                ci_chanRet = Some (ChanAsynRet c), ci_cb = cb\<rparr>]\<rparr>\<rparr>))"
  by (intro conjI impI)
     (auto simp: Client_AsynCall_def len_def Client_asynCall_def Client_f_resolution
        asyn_failure_def on_asynCall_def Client_call_def chan_send_def as_error_def
        cb_shape_def Let_def split: option.splits if_splits val.splits)

theorem AsynCall_failure_inline_witness:
  "Client_AsynCall demo_client (IdStr ''nope'') (Some ([] @ [VFuncErr 5])) demo_world =
     (Returns (), demo_client,
      demo_world\<lparr>invoked := invoked demo_world @
        [CalledErr 5 (Some (ENotRegistered (IdStr ''nope'')))]\<rparr>) \<and>
   Client_AsynCall demo_client (IdStr ''tick'') (Some ([VInt 2] @ [VFuncValErr 6])) demo_world =
     (Returns (), demo_client,
      demo_world\<lparr>invoked := invoked demo_world @
        [CalledValErr 6 VNil (Some (EReturnTypeMismatch (IdStr ''tick'')))]\<rparr>) \<and>
   Client_AsynCall demo_client (IdStr ''list'') (Some ([] @ [VFuncSliceErr 7]))
       (demo_world\<lparr>ChanCall := (make_chan 1)\<lparr>ch_buf := [go_envelope]\<rparr>\<rparr>) =
     (Returns (), demo_client,
      demo_world\<lparr>ChanCall := (make_chan 1)\<lparr>ch_buf := [go_envelope]\<rparr>,
        invoked := invoked demo_world @ [CalledSliceErr 7 None (Some EChannelFull)]\<rparr>) \<and>
   Client_AsynCall demo_client (IdStr ''tick'') (Some ([] @ [VFuncErr 5]))
       (demo_world\<lparr>ChanCall := (make_chan 1)\<lparr>ch_closed := True\<rparr>\<rparr>) =
     (Returns (), demo_client,
      demo_world\<lparr>ChanCall := (make_chan 1)\<lparr>ch_closed := True\<rparr>,
        invoked := invoked demo_world @
          [CalledErr 5 (Some (ERuntime SendOnClosedChannel))]\<rparr>) \<and>
   Client_AsynCall demo_client (IdStr ''tick'') (Some ([VInt 1] @ [VFuncErr 5])) demo_world =
     (Returns (), demo_client\<lparr>pendingAsynCall := pendingAsynCall demo_client + 1\<rparr>,
      demo_world\<lparr>ChanCall := (ChanCall demo_world)\<lparr>ch_buf := ch_buf (ChanCall demo_world) @
         [\<lparr>ci_f = tick_op, ci_args = Some [VInt 1],
           ci_chanRet = Some (ChanAsynRet demo_client), ci_cb = VFuncErr 5\<rparr>]\<rparr>\<rparr>)"
  using AsynCall_failure_inline [of demo_world "IdStr ''nope''"
          "ENotRegistered (IdStr ''nope'')" demo_client "[]" 5]
        AsynCall_failure_inline [of demo_world "IdStr ''tick''"
          "EReturnTypeMismatch (IdStr ''tick'')" demo_client "[VInt 2]" 6]
        AsynCall_failure_inline [of
          "demo_world\<lparr>ChanCall := (make_chan 1)\<lparr>ch_buf := [go_envelope]\<rparr>\<rparr>" "IdStr ''list''"
          EChannelFull demo_client "[]" 7]
        AsynCall_failure_inline [of "demo_world\<lparr>ChanCall := (make_chan 1)\<lparr>ch_closed := True\<rparr>\<rparr>"
          "IdStr ''tick''" "ERuntime SendOnClosedChannel" demo_client "[]" 5]
        AsynCall_failure_inline [of demo_world "IdStr ''tick''" _ demo_client "[VInt 1]" _
          "VFuncErr 5" 0]
  by (simp add: asyn_failure_def resolution_error_def has_shape_def cb_shape_def lookup_def
        demo_world_def tick_op_def one_op_def list_op_def make_chan_def)

section \<open>Closing the server\<close>

lemma room_for_iff:
  "room_for cis w \<longleftrightarrow>
     (\<forall>a. queued_for a cis \<noteq> [] \<longrightarrow>
        ch_closed (chans w a) \<or>
        length (ch_buf (chans w a)) + length (queued_for a cis) \<le> ch_cap (chans w a))"
  by (auto simp: room_for_def queued_for_def list_all_iff filter_empty_conv split: option.splits)

lemma after_answers_Nil: "after_answers [] w = w"
  by (simp add: after_answers_def queued_for_def cong: if_cong)

lemma after_answers_skip:
  "ci_chanRet ci = None \<or> (\<exists>a. ci_chanRet ci = Some a \<and> ch_closed (chans w a)) \<Longrightarrow>
   after_answers (ci # cis) w = after_answers cis w"
  by (auto simp: after_answers_def queued_for_def fun_eq_iff)

lemma after_answers_push:
  "ci_chanRet ci = Some a \<Longrightarrow> \<not> ch_closed (chans w a) \<Longrightarrow>
   after_answers cis (push_ret a (closed_reply ci) w) = after_answers (ci # cis) w"
  by (auto simp: after_answers_def queued_for_def push_ret_def fun_eq_iff)

lemma push_ret_queue: "ChanCall (push_ret a ri w) = ChanCall w"
  by (simp add: push_ret_def)

lemma after_answers_queue:
  "after_answers cis (w\<lparr>ChanCall := q\<rparr>) = (after_answers cis w)\<lparr>ChanCall := q\<rparr>"
  by (simp add: after_answers_def cong: if_cong)

lemma Close_range_answers:
  "ch_buf (ChanCall w) = cis \<Longrightarrow> \<exists>ans rest. cis = ans @ rest \<and>
      Close_range cis w = close_outcome ans rest w \<and> stuck_at ans rest w"
proof (induction cis arbitrary: w)
  case Nil
  then show ?case
    by (intro exI [of _ "[]"]) (simp add: close_outcome_def stuck_at_def after_answers_Nil)
next
  case (Cons ci cis)
  let ?w1 = "w\<lparr>ChanCall := (ChanCall w)\<lparr>ch_buf := cis\<rparr>\<rparr>"
  let ?ri = "\<lparr>ri_ret = VNil, ri_err = Some EServerClosed, ri_cb = VNil\<rparr>"
  consider (skip) "ci_chanRet ci = None \<or> (\<exists>a. ci_chanRet ci = Some a \<and> ch_closed (chans w a))"
    | (push) a where "ci_chanRet ci = Some a" "\<not> ch_closed (chans w a)"
        "length (ch_buf (chans w a)) < ch_cap (chans w a)"
    | (full) a where "ci_chanRet ci = Some a" "\<not> ch_closed (chans w a)"
        "ch_cap (chans w a) \<le> length (ch_buf (chans w a))"
    by (cases "ci_chanRet ci") (auto, meson leI)
  then show ?case
  proof cases
    case skip
    then have ret: "\<exists>e. Server_ret ci ?ri ?w1 = (Returns e, ?w1)"
      by (auto simp: Server_ret_cases)
    have "ch_buf (ChanCall ?w1) = cis" by simp
    from Cons.IH [OF this] obtain ans rest where
      d: "cis = ans @ rest" "Close_range cis ?w1 = close_outcome ans rest ?w1"
         "stuck_at ans rest ?w1"
      by blast
    have "Close_range (ci # cis) w = close_outcome (ci # ans) rest w"
      using ret d(2) skip
      by (auto simp: close_outcome_def after_answers_queue after_answers_skip split: list.splits)
    moreover have "stuck_at (ci # ans) rest w"
      using d(3) by (auto simp: stuck_at_def queued_for_def split: list.splits option.splits)
    ultimately show ?thesis
      using d(1) by (intro exI [of _ "ci # ans"] exI [of _ rest]) simp
  next
    case push
    let ?w2 = "push_ret a (closed_reply ci) ?w1"
    have ret: "Server_ret ci ?ri ?w1 = (Returns None, ?w2)"
      using push by (simp add: Server_ret_cases closed_reply_def)
    have "ch_buf (ChanCall ?w2) = cis" by (simp add: push_ret_def)
    from Cons.IH [OF this] obtain ans rest where
      d: "cis = ans @ rest" "Close_range cis ?w2 = close_outcome ans rest ?w2"
         "stuck_at ans rest ?w2"
      by blast
    have w2: "?w2 = (push_ret a (closed_reply ci) w)\<lparr>ChanCall := (ChanCall w)\<lparr>ch_buf := cis\<rparr>\<rparr>"
      by (simp add: push_ret_def)
    have "Close_range (ci # cis) w = close_outcome (ci # ans) rest w"
      using ret d(2) push(1,2) unfolding w2
      by (simp add: close_outcome_def after_answers_queue after_answers_push push_ret_queue
            split: list.splits)
    moreover have "stuck_at (ci # ans) rest w"
      using d(3) push(1,2)
      by (auto simp: stuck_at_def queued_for_def push_ret_def split: list.splits option.splits
            if_splits)
    ultimately show ?thesis
      using d(1) by (intro exI [of _ "ci # ans"] exI [of _ rest]) simp
  next
    case full
    have ret: "Server_ret ci ?ri ?w1 = (Blocks SendChanRet, ?w1)"
      using full by (simp add: Server_ret_cases)
    have "Close_range (ci # cis) w = close_outcome [] (ci # cis) w"
      using ret by (simp add: close_outcome_def after_answers_Nil)
    moreover have "stuck_at [] (ci # cis) w"
      using full by (simp add: stuck_at_def queued_for_def)
    ultimately show ?thesis
      by (intro exI [of _ "[]"] exI [of _ "ci # cis"]) simp
  qed
qed

lemma stuck_no_room:
  assumes "stuck_at ans (ci # rest) w" and "room_for (ans @ ci # rest) w"
  shows False
proof -
  from assms(1) obtain a where a: "ci_chanRet ci = Some a" "\<not> ch_closed (chans w a)"
    "ch_cap (chans w a) \<le> length (ch_buf (chans w a)) + length (queued_for a ans)"
    by (auto simp: stuck_at_def split: option.splits)
  have q: "queued_for a (ans @ ci # rest) = queued_for a ans @ ci # queued_for a rest"
    using a(1) by (simp add: queued_for_def)
  then have "queued_for a (ans @ ci # rest) \<noteq> []" by simp
  with assms(2) a(2) have
    "length (ch_buf (chans w a)) + length (queued_for a (ans @ ci # rest)) \<le> ch_cap (chans w a)"
    unfolding room_for_iff by blast
  with q a(3) show False by simp
qed

text \<open>
  C5, as stated, fails. With the client's asynchronous call of \<^verbatim>\<open>list\<close> and the envelope
  of \<^verbatim>\<open>Go("tick")\<close> in the queue, \<^verbatim>\<open>Close\<close> returns with one answer in the world for the two
  resident envelopes: the envelope of \<^verbatim>\<open>Go\<close> has no return channel. An envelope that names
  a closed return channel gets no answer either. And with two of the client's calls
  queued and room for one answer on its channel, \<^verbatim>\<open>Close\<close> answers the first and is
  suspended at the send of the second answer. On a queue that is closed already \<^verbatim>\<open>Close\<close>
  panics.
\<close>

theorem Close_leaves_unanswered:
  "ch_buf (ChanCall closing_world) = [list_envelope, go_envelope] \<and>
   Server_Close closing_world =
     (Returns (),
      (push_ret 1 (closed_reply list_envelope) demo_world)
        \<lparr>ChanCall := (make_chan 2)\<lparr>ch_closed := True\<rparr>\<rparr>) \<and>
   Server_Close (closed_ret_world\<lparr>ChanCall := (make_chan 1)\<lparr>ch_buf := [list_envelope]\<rparr>\<rparr>) =
     (Returns (), closed_ret_world\<lparr>ChanCall := (make_chan 1)\<lparr>ch_closed := True\<rparr>\<rparr>) \<and>
   Server_Close crowded_world =
     (Blocks SendChanRet,
      (push_ret 1 (closed_reply list_envelope) demo_world)
        \<lparr>ChanCall := (make_chan 2)\<lparr>ch_closed := True\<rparr>\<rparr>) \<and>
   Server_Close (demo_world\<lparr>ChanCall := (make_chan 1)\<lparr>ch_closed := True\<rparr>\<rparr>) =
     (Panics (PRuntime CloseOfClosedChannel),
      demo_world\<lparr>ChanCall := (make_chan 1)\<lparr>ch_closed := True\<rparr>\<rparr>)"
  by (simp add: Server_Close_def closing_world_def crowded_world_def closed_ret_world_def
        list_envelope_def tick_envelope_def go_envelope_def make_chan_def Server_ret_cases
        demo_world_def closed_reply_def push_ret_def)

text \<open>
  C5, amended. \<^verbatim>\<open>Close\<close> on an open queue first closes it, so that every later push fails
  with the runtime's error for a send on a closed channel, and then takes the resident
  envelopes in queue order. An envelope whose return channel is present and open is
  answered on that channel, after what the channel held, with an envelope carrying the
  error "server closed", a nil result and the call's callback; an envelope without a
  return channel, or with a closed one, is dropped without an answer. No operation is
  run and nothing else in the world changes. \<^verbatim>\<open>Close\<close> returns when it has gone through
  the whole queue, which it does when the open return channels have room for their
  answers; when it comes to an envelope whose return channel is full, it waits at that
  send, the envelopes before answered and the ones after still in the queue.
\<close>

theorem Close_answers_queued:
  assumes "\<not> ch_closed (ChanCall w)"
  shows "\<exists>ans rest. ch_buf (ChanCall w) = ans @ rest \<and>
     Server_Close w =
       close_outcome ans rest (w\<lparr>ChanCall := (ChanCall w)\<lparr>ch_closed := True\<rparr>\<rparr>) \<and>
     stuck_at ans rest w \<and>
     (room_for (ch_buf (ChanCall w)) w \<longrightarrow> rest = []) \<and>
     (\<forall>ci block. Client_call ci block (snd (Server_Close w)) =
        (Returns (Some (ERuntime SendOnClosedChannel)), snd (Server_Close w)))"
proof -
  let ?w0 = "w\<lparr>ChanCall := (ChanCall w)\<lparr>ch_closed := True\<rparr>\<rparr>"
  have "ch_buf (ChanCall ?w0) = ch_buf (ChanCall w)" by simp
  from Close_range_answers [OF this] obtain ans rest where
    a: "ch_buf (ChanCall w) = ans @ rest"
       "Close_range (ch_buf (ChanCall w)) ?w0 = close_outcome ans rest ?w0"
       "stuck_at ans rest ?w0"
    by blast
  from a(2) assms have sc: "Server_Close w = close_outcome ans rest ?w0"
    by (simp add: Server_Close_def)
  from a(3) have st: "stuck_at ans rest w"
    by (simp add: stuck_at_def split: list.splits option.splits)
  have room: "room_for (ch_buf (ChanCall w)) w \<longrightarrow> rest = []"
  proof (cases rest)
    case (Cons ci rest')
    with st a(1) show ?thesis by (auto dest: stuck_no_room)
  qed simp
  have "ch_closed (ChanCall (snd (Server_Close w)))"
    by (simp add: sc close_outcome_def after_answers_def split: list.splits)
  then have "\<forall>ci block. Client_call ci block (snd (Server_Close w)) =
        (Returns (Some (ERuntime SendOnClosedChannel)), snd (Server_Close w))"
    by (simp add: Client_call_def chan_send_def as_error_def)
  with a(1) sc st room show ?thesis by blast
qed

theorem Close_answers_queued_witness:
  "\<not> ch_closed (ChanCall closing_world) \<and>
   room_for (ch_buf (ChanCall closing_world)) closing_world \<and>
   fst (Server_Close closing_world) = Returns () \<and>
   ch_buf (ChanCall (snd (Server_Close closing_world))) = [] \<and>
   ch_closed (ChanCall (snd (Server_Close closing_world))) \<and>
   ch_buf (chans (snd (Server_Close closing_world)) 1) =
     [\<lparr>ri_ret = VNil, ri_err = Some EServerClosed, ri_cb = VFuncSliceErr 7\<rparr>] \<and>
   ch_buf (chans (snd (Server_Close closing_world)) 0) = [] \<and>
   Client_call go_envelope False (snd (Server_Close closing_world)) =
     (Returns (Some (ERuntime SendOnClosedChannel)), snd (Server_Close closing_world))"
proof -
  have h1: "\<not> ch_closed (ChanCall closing_world)"
    by (simp add: closing_world_def make_chan_def)
  have h2: "room_for (ch_buf (ChanCall closing_world)) closing_world"
    by (simp add: closing_world_def room_for_def queued_for_def make_chan_def demo_world_def
          go_envelope_def)
  from Close_answers_queued [OF h1] h2 obtain ans where
    a: "ch_buf (ChanCall closing_world) = ans"
       "Server_Close closing_world =
          close_outcome ans [] (closing_world\<lparr>ChanCall := (ChanCall closing_world)\<lparr>ch_closed := True\<rparr>\<rparr>)"
       "\<forall>ci block. Client_call ci block (snd (Server_Close closing_world)) =
          (Returns (Some (ERuntime SendOnClosedChannel)), snd (Server_Close closing_world))"
    by auto
  have q: "queued_for (Suc 0) ans =
       [\<lparr>ci_f = list_op, ci_args = None, ci_chanRet = Some 1, ci_cb = VFuncSliceErr 7\<rparr>]"
    "queued_for 0 ans = []"
    "\<not> ch_closed (chans closing_world (Suc 0))" "\<not> ch_closed (chans closing_world 0)"
    "ch_buf (chans closing_world (Suc 0)) = []" "ch_buf (chans closing_world 0) = []"
    using a(1) [symmetric]
    by (simp_all add: closing_world_def queued_for_def make_chan_def demo_world_def
          go_envelope_def)
  show ?thesis
    using h1 h2 a(3) q
    by (simp add: a(2) close_outcome_def after_answers_def closed_reply_def)
qed

section \<open>A fault behind a sequence-shaped call\<close>

text \<open>
  C1 fails on the code. The client calls \<^verbatim>\<open>CallN("list")\<close> and is suspended with its
  envelope queued; the owner loop runs \<^verbatim>\<open>Exec\<close>, which recovers the fault of the body and
  answers with an envelope holding the error and a nil result; woken, \<^verbatim>\<open>CallN\<close> panics in
  the type assertion \<^verbatim>\<open>ri.ret.([]interface{})\<close> instead of returning the error. \<^verbatim>\<open>Cb\<close> on
  the answer to the same call made asynchronously with a sequence callback panics at the
  same assertion: the callback is not invoked and the counter keeps its value.
\<close>

theorem CallN_panics_on_error_reply:
  "Client_CallN demo_client (IdStr ''list'') None demo_world =
     (Blocks RecvSyncRet, sync_list_queued) \<and>
   owner_round 0 [] sync_list_queued =
     (Returns (Some (EFault (PStr ''boom'') None)), push_ret 0 sync_fault_reply demo_world) \<and>
   fst (CallN_await demo_client (push_ret 0 sync_fault_reply demo_world)) =
     Panics (PRuntime InterfaceConversion) \<and>
   Client_AsynCall demo_client (IdStr ''list'') (Some [VFuncSliceErr 7]) demo_world =
     (Returns (), demo_client_pending, asyn_list_queued) \<and>
   owner_round 0 [] asyn_list_queued =
     (Returns (Some (EFault (PStr ''boom'') None)), push_ret 1 asyn_fault_reply demo_world) \<and>
   Client_Cb demo_client_pending asyn_fault_reply demo_world =
     (Panics (PRuntime InterfaceConversion), demo_client_pending, demo_world)"
proof -
  have "Client_CallN demo_client (IdStr ''list'') None demo_world =
      (Blocks RecvSyncRet, sync_list_queued)"
    by (simp add: Client_CallN_def Client_f_def lookup_def Client_call_def chan_send_def
          CallN_await_def chan_recv_def demo_world_def demo_client_def list_op_def
          make_chan_def sync_list_queued_def)
  moreover have "owner_round 0 [] sync_list_queued =
      (Returns (Some (EFault (PStr ''boom'') None)), push_ret 0 sync_fault_reply demo_world)"
    by (simp add: owner_round_def chan_recv_def sync_list_queued_def Server_Exec_def Let_def
          Exec_body_def list_op_def recovers_nil_def recovered_error_def Server_ret_cases sync_fault_reply_def
          demo_world_def make_chan_def)
  moreover have "fst (CallN_await demo_client (push_ret 0 sync_fault_reply demo_world)) =
      Panics (PRuntime InterfaceConversion)"
    by (simp add: CallN_await_def chan_recv_def push_ret_def demo_client_def
          sync_fault_reply_def demo_world_def make_chan_def)
  moreover have "Client_AsynCall demo_client (IdStr ''list'') (Some [VFuncSliceErr 7])
      demo_world = (Returns (), demo_client_pending, asyn_list_queued)"
    by (simp add: Client_AsynCall_def len_def Client_asynCall_def Client_f_def lookup_def
          Client_call_def chan_send_def on_asynCall_def demo_world_def demo_client_def
          list_op_def make_chan_def asyn_list_queued_def demo_client_pending_def)
  moreover have "owner_round 0 [] asyn_list_queued =
      (Returns (Some (EFault (PStr ''boom'') None)), push_ret 1 asyn_fault_reply demo_world)"
    by (simp add: owner_round_def chan_recv_def asyn_list_queued_def Server_Exec_def Let_def
          Exec_body_def list_op_def recovers_nil_def recovered_error_def Server_ret_cases asyn_fault_reply_def
          demo_world_def make_chan_def)
  moreover have "Client_Cb demo_client_pending asyn_fault_reply demo_world =
      (Panics (PRuntime InterfaceConversion), demo_client_pending, demo_world)"
    by (simp add: Client_Cb_def asyn_fault_reply_def)
  ultimately show ?thesis by blast
qed

text \<open>
  C6 fails on the code, by the same assertion in \<^verbatim>\<open>Cb\<close>. The client has one asynchronous
  call of \<^verbatim>\<open>list\<close> pending, made with a sequence callback. Whether the dispatcher answers
  it with the recovered fault or \<^verbatim>\<open>Server.Close\<close> answers it with "server closed", the
  answer is on the client's asynchronous channel when \<^verbatim>\<open>Client.Close\<close> starts; \<^verbatim>\<open>Close\<close>
  reads it and panics: no callback has been invoked and the counter is still 1.
\<close>

theorem Client_Close_panics_on_error_reply:
  "Client_Close demo_client_pending (push_ret 1 asyn_fault_reply demo_world) =
     (Panics (PRuntime InterfaceConversion), demo_client_pending, demo_world) \<and>
   fst (Server_Close asyn_list_queued) = Returns () \<and>
   ch_buf (chans (snd (Server_Close asyn_list_queued)) 1) =
     [\<lparr>ri_ret = VNil, ri_err = Some EServerClosed, ri_cb = VFuncSliceErr 7\<rparr>] \<and>
   fst (Client_Close demo_client_pending (snd (Server_Close asyn_list_queued))) =
     Panics (PRuntime InterfaceConversion) \<and>
   invoked (snd (snd (Client_Close demo_client_pending (snd (Server_Close asyn_list_queued))))) =
     [] \<and>
   pendingAsynCall (fst (snd (Client_Close demo_client_pending
     (snd (Server_Close asyn_list_queued))))) = 1"
proof -
  have pos: "0 <s pendingAsynCall demo_client_pending"
    by (simp add: demo_client_pending_def word_sless_alt)
  have "Client_Close demo_client_pending (push_ret 1 asyn_fault_reply demo_world) =
     (Panics (PRuntime InterfaceConversion), demo_client_pending, demo_world)"
    by (subst Client_Close.simps)
       (simp add: pos, simp add: chan_recv_def push_ret_def demo_client_pending_def
          demo_client_def demo_world_def make_chan_def Client_Cb_def asyn_fault_reply_def)
  moreover have sc: "Server_Close asyn_list_queued =
     (Returns (), (push_ret 1 (closed_reply \<lparr>ci_f = list_op, ci_args = None, ci_chanRet = Some 1,
         ci_cb = VFuncSliceErr 7\<rparr>) demo_world)\<lparr>ChanCall := (make_chan 1)\<lparr>ch_closed := True\<rparr>\<rparr>)"
    by (simp add: Server_Close_def asyn_list_queued_def make_chan_def Server_ret_cases
          demo_world_def closed_reply_def push_ret_def)
  moreover have "Client_Close demo_client_pending
      ((push_ret 1 (closed_reply \<lparr>ci_f = list_op, ci_args = None, ci_chanRet = Some 1,
         ci_cb = VFuncSliceErr 7\<rparr>) demo_world)\<lparr>ChanCall := (make_chan 1)\<lparr>ch_closed := True\<rparr>\<rparr>) =
     (Panics (PRuntime InterfaceConversion), demo_client_pending,
      demo_world\<lparr>ChanCall := (make_chan 1)\<lparr>ch_closed := True\<rparr>\<rparr>)"
    by (subst Client_Close.simps)
       (simp add: pos, simp add: chan_recv_def push_ret_def demo_client_pending_def
          demo_client_def demo_world_def make_chan_def Client_Cb_def closed_reply_def)
  ultimately show ?thesis
    by (simp add: push_ret_def closed_reply_def demo_world_def make_chan_def
          demo_client_pending_def)
qed

section \<open>Order of execution and of answers\<close>
































end
